theory Spec2Isabelle
  imports Main
begin

section \<open>Python exceptions\<close>

text \<open>
  The two source files raise and catch Python exceptions. An exception is a value: its
  class and the text that \<^verbatim>\<open>str(ex)\<close> returns. Only the classes that the sources name,
  and the subclasses that matter to their \<^verbatim>\<open>except\<close> clauses, are listed.
\<close>

datatype exn_class =
    ImportError | ModuleNotFoundError
  | OSError | FileNotFoundError
  | TypeError | AttributeError | NameError | RuntimeError

datatype exn = Exn (cls: exn_class) (str: string)

fun base :: "exn_class \<Rightarrow> exn_class option" where
  "base ModuleNotFoundError = Some ImportError"
| "base FileNotFoundError = Some OSError"
| "base _ = None"

definition isinstance :: "exn \<Rightarrow> exn_class \<Rightarrow> bool" where
  "isinstance e c = (cls e = c \<or> base (cls e) = Some c)"

section \<open>setup.py: the long description\<close>

text \<open>
  \<^verbatim>\<open>get_long_description\<close> talks to two things outside itself: the import system
  (\<^verbatim>\<open>import pypandoc\<close>) and the file system (\<^verbatim>\<open>open('README.md').read()\<close>). The
  environment gives the outcome of each. A module \<^verbatim>\<open>pypandoc\<close>, once imported, is its
  function \<^verbatim>\<open>convert(source, to)\<close>, which returns a string or raises.
\<close>

datatype pypandoc = Pypandoc (convert: "string \<Rightarrow> string \<Rightarrow> exn + string")

record setup_env =
  import_pypandoc :: "exn + pypandoc"
  open_read :: "string \<Rightarrow> exn + string"

text \<open>The calls the function makes to the outside, in the order it makes them.\<close>

datatype call = ImportPypandoc | Convert string string | OpenRead string

text \<open>
  The body of the \<^verbatim>\<open>try\<close>: the import, then the conversion. An exception of either
  statement leaves the body.
\<close>

definition try_body :: "setup_env \<Rightarrow> call list \<times> (exn + string)" where
  "try_body env =
     (case import_pypandoc env of
        Inl e \<Rightarrow> ([ImportPypandoc], Inl e)
      | Inr m \<Rightarrow> ([ImportPypandoc, Convert ''README.md'' ''rst''],
                  convert m ''README.md'' ''rst''))"

text \<open>
  The whole function: \<^verbatim>\<open>except ImportError\<close> guards the whole body, reads the file
  instead, and lets every other exception through.
\<close>

definition get_long_description :: "setup_env \<Rightarrow> call list \<times> (exn + string)" where
  "get_long_description env =
     (case try_body env of
        (cs, Inl e) \<Rightarrow>
          if isinstance e ImportError
          then (cs @ [OpenRead ''README.md''], open_read env ''README.md'')
          else (cs, Inl e)
      | (cs, Inr long_description) \<Rightarrow> (cs, Inr long_description))"

text \<open>The function fell back when it read the file itself.\<close>

definition fell_back :: "setup_env \<Rightarrow> bool" where
  "fell_back env = (OpenRead ''README.md'' \<in> set (fst (get_long_description env)))"

subsection \<open>Four environments\<close>

definition readme_only :: "string \<Rightarrow> exn + string" where
  "readme_only path =
     (if path = ''README.md'' then Inr ''# webp'' else Inl (Exn FileNotFoundError path))"

text \<open>Without \<^verbatim>\<open>pypandoc\<close>.\<close>

definition bare_env :: setup_env where
  "bare_env =
     \<lparr> import_pypandoc = Inl (Exn ModuleNotFoundError ''No module named pypandoc''),
       open_read = readme_only \<rparr>"

text \<open>With a \<^verbatim>\<open>pypandoc\<close> that converts.\<close>

definition pandoc_env :: setup_env where
  "pandoc_env =
     \<lparr> import_pypandoc = Inr (Pypandoc (\<lambda>source to. Inr ''webp ===='')),
       open_read = readme_only \<rparr>"

text \<open>With a \<^verbatim>\<open>pypandoc\<close> that finds no pandoc program.\<close>

definition no_pandoc_env :: setup_env where
  "no_pandoc_env =
     \<lparr> import_pypandoc = Inr (Pypandoc (\<lambda>source to. Inl (Exn OSError ''No pandoc was found''))),
       open_read = readme_only \<rparr>"

text \<open>
  With a \<^verbatim>\<open>pypandoc\<close> that imports, and whose \<^verbatim>\<open>convert\<close> raises an
  \<^verbatim>\<open>ImportError\<close> of its own (a module it loads on first use is missing).
\<close>

definition lazy_pypandoc :: pypandoc where
  "lazy_pypandoc = Pypandoc (\<lambda>source to. Inl (Exn ImportError ''No module named pandoc''))"

definition lazy_env :: setup_env where
  "lazy_env = \<lparr> import_pypandoc = Inr lazy_pypandoc, open_read = readme_only \<rparr>"

section \<open>tests/test_webp.py: the TemporaryDirectory of Python 2\<close>

subsection \<open>The file system\<close>

text \<open>
  What a path names: a file, a symbolic link, or a directory with its entries in the
  order \<^verbatim>\<open>os.listdir\<close> gives them. The flags say what the operating system allows:
  \<^item> \<open>File w\<close>: \<open>w\<close>, the file may be unlinked;
  \<^item> \<open>Symlink w t\<close>: \<open>w\<close>, the link may be unlinked; \<open>t\<close>, what the link leads to
    (\<open>None\<close> for a link that leads nowhere). What a link leads to is kept with the link:
    it lies outside the tree and is reached through this link only;
  \<^item> \<open>Dir r w es\<close>: \<open>r\<close>, the directory may be listed; \<open>w\<close>, it may be removed once
    it is empty.
\<close>

datatype node =
    File bool
  | Symlink bool "node option"
  | Dir bool bool "(string \<times> node) list"

text \<open>
  The operating-system functions that the class keeps as attributes
  (\<^verbatim>\<open>_listdir\<close>, \<^verbatim>\<open>_path_join\<close>, \<^verbatim>\<open>_isdir\<close>, \<^verbatim>\<open>_islink\<close>, \<^verbatim>\<open>_remove\<close>,
  \<^verbatim>\<open>_rmdir\<close>, \<^verbatim>\<open>_warn\<close>). At interpreter shutdown such a name may be gone; \<open>faults\<close>
  gives, for each of them, the exception that calling it raises, if any (for a name
  that is \<^verbatim>\<open>None\<close>, a \<^verbatim>\<open>TypeError\<close> whose text says so).
\<close>

datatype prim = Listdir | PathJoin | Isdir | Islink | Remove | Rmdir | Warn

type_synonym faults = "prim \<Rightarrow> exn option"

definition call :: "faults \<Rightarrow> prim \<Rightarrow> exn + 'a \<Rightarrow> exn + 'a" where
  "call F p r = (case F p of Some e \<Rightarrow> Inl e | None \<Rightarrow> r)"

text \<open>
  \<^verbatim>\<open>os.listdir\<close> and \<^verbatim>\<open>os.path.isdir\<close> follow links; \<^verbatim>\<open>os.path.islink\<close>,
  \<^verbatim>\<open>os.remove\<close> and \<^verbatim>\<open>os.rmdir\<close> look at the link itself.
\<close>

fun listdir :: "node \<Rightarrow> exn + string list" where
  "listdir (Dir r w es) =
     (if r then Inr (map fst es) else Inl (Exn OSError ''Permission denied''))"
| "listdir (Symlink w (Some t)) = listdir t"
| "listdir (Symlink w None) = Inl (Exn OSError ''No such file or directory'')"
| "listdir (File w) = Inl (Exn OSError ''Not a directory'')"

fun isdir :: "node \<Rightarrow> bool" where
  "isdir (Dir r w es) = True"
| "isdir (Symlink w (Some t)) = isdir t"
| "isdir (Symlink w None) = False"
| "isdir (File w) = False"

fun islink :: "node \<Rightarrow> bool" where
  "islink (Symlink w t) = True"
| "islink n = False"

fun remove :: "node \<Rightarrow> exn + unit" where
  "remove (File w) = (if w then Inr () else Inl (Exn OSError ''Permission denied''))"
| "remove (Symlink w t) = (if w then Inr () else Inl (Exn OSError ''Permission denied''))"
| "remove (Dir r w es) = Inl (Exn OSError ''Is a directory'')"

fun rmdir :: "node \<Rightarrow> exn + unit" where
  "rmdir (Dir r w es) =
     (if es \<noteq> [] then Inl (Exn OSError ''Directory not empty'')
      else if w then Inr () else Inl (Exn OSError ''Permission denied''))"
| "rmdir n = Inl (Exn OSError ''Not a directory'')"

subsection \<open>\<^verbatim>\<open>_rmtree\<close>\<close>

text \<open>
  \<^verbatim>\<open>isdir = self._isdir(fullname) and not self._islink(fullname)\<close>, inside its
  \<^verbatim>\<open>try\<close>: an \<^verbatim>\<open>OSError\<close> gives \<^verbatim>\<open>False\<close>, any other exception leaves \<^verbatim>\<open>_rmtree\<close>.
  The second call is made only when the first returned \<^verbatim>\<open>True\<close>.
\<close>

definition is_real_dir :: "faults \<Rightarrow> node \<Rightarrow> exn + bool" where
  "is_real_dir F c =
     (case (case call F Isdir (Inr (isdir c)) of
              Inl e \<Rightarrow> Inl e
            | Inr d \<Rightarrow>
                if d then (case call F Islink (Inr (islink c)) of
                             Inl e \<Rightarrow> Inl e
                           | Inr l \<Rightarrow> Inr (\<not> l))
                else Inr False) of
        Inl e \<Rightarrow> if isinstance e OSError then Inr False else Inl e
      | Inr b \<Rightarrow> Inr b)"

text \<open>
  \<^verbatim>\<open>self._remove(fullname)\<close>, inside its \<^verbatim>\<open>try\<close>: what is left under the name
  afterwards (\<open>None\<close> when the entry is gone). An \<^verbatim>\<open>OSError\<close> is passed over and the
  entry stays.
\<close>

definition try_remove :: "faults \<Rightarrow> node \<Rightarrow> exn + node option" where
  "try_remove F c =
     (case call F Remove (remove c) of
        Inl e \<Rightarrow> if isinstance e OSError then Inr (Some c) else Inl e
      | Inr u \<Rightarrow> Inr None)"

fun kept :: "string \<Rightarrow> node option \<Rightarrow> (string \<times> node) list" where
  "kept name None = []"
| "kept name (Some c) = [(name, c)]"

text \<open>
  \<open>rmtree F n\<close> is \<^verbatim>\<open>self._rmtree(path)\<close> where \<open>path\<close> names \<open>n\<close>: the exception
  that leaves the call, if any, and what \<open>path\<close> names afterwards (\<open>None\<close> when it is
  gone). It is the \<^verbatim>\<open>for\<close> statement, then \<^verbatim>\<open>self._rmdir(path)\<close> inside its \<^verbatim>\<open>try\<close>.

  \<open>rmtree_for F n\<close> is the \<^verbatim>\<open>for\<close> statement: \<open>path\<close> is listed once, through the
  links it may be, and the loop runs over the entries of that moment, in the directory
  the listing reached. It returns \<open>n\<close> with the entries that are left. Where the listing
  raises there is no loop (\<open>rmtree_for_returns_dir\<close> below), so the last branch of its
  equations for a link that leads nowhere and for a file is never taken.

  \<open>rmtree_loop\<close> is the loop over the listed names, each taken with the node its
  \<open>fullname\<close> names; it returns the entries that are left.
\<close>

function (sequential) rmtree :: "faults \<Rightarrow> node \<Rightarrow> exn option \<times> node option"
  and rmtree_for :: "faults \<Rightarrow> node \<Rightarrow> exn option \<times> node"
  and rmtree_loop :: "faults \<Rightarrow> (string \<times> node) list \<Rightarrow> exn option \<times> (string \<times> node) list"
where
  "rmtree F n =
     (case rmtree_for F n of
        (Some e, n') \<Rightarrow> (Some e, Some n')
      | (None, n') \<Rightarrow>
          (case call F Rmdir (rmdir n') of
             Inl e \<Rightarrow> if isinstance e OSError then (None, Some n') else (Some e, Some n')
           | Inr u \<Rightarrow> (None, None)))"
| "rmtree_for F (Dir r w es) =
     (case call F Listdir (listdir (Dir r w es)) of
        Inl e \<Rightarrow> (Some e, Dir r w es)
      | Inr names \<Rightarrow> (case rmtree_loop F es of (ex, es') \<Rightarrow> (ex, Dir r w es')))"
| "rmtree_for F (Symlink w (Some t)) =
     (case rmtree_for F t of (ex, t') \<Rightarrow> (ex, Symlink w (Some t')))"
| "rmtree_for F (Symlink w None) =
     (case call F Listdir (listdir (Symlink w None)) of
        Inl e \<Rightarrow> (Some e, Symlink w None)
      | Inr names \<Rightarrow> (None, Symlink w None))"
| "rmtree_for F (File w) =
     (case call F Listdir (listdir (File w)) of
        Inl e \<Rightarrow> (Some e, File w)
      | Inr names \<Rightarrow> (None, File w))"
| "rmtree_loop F [] = (None, [])"
| "rmtree_loop F ((name, c) # es) =
     (case call F PathJoin (Inr name) of
        Inl e \<Rightarrow> (Some e, (name, c) # es)
      | Inr fullname \<Rightarrow>
          (case is_real_dir F c of
             Inl e \<Rightarrow> (Some e, (name, c) # es)
           | Inr is_dir \<Rightarrow>
               if is_dir then
                 (case rmtree F c of
                    (Some e, c') \<Rightarrow> (Some e, kept name c' @ es)
                  | (None, c') \<Rightarrow>
                      (case rmtree_loop F es of (ex, es') \<Rightarrow> (ex, kept name c' @ es')))
               else
                 (case try_remove F c of
                    Inl e \<Rightarrow> (Some e, (name, c) # es)
                  | Inr c' \<Rightarrow>
                      (case rmtree_loop F es of (ex, es') \<Rightarrow> (ex, kept name c' @ es')))))"
  by pat_completeness auto
termination
  by (relation "measure (\<lambda>x. case x of
          Inl (F, n) \<Rightarrow> 2 * size n + 1
        | Inr (Inl (F, n)) \<Rightarrow> 2 * size n
        | Inr (Inr (F, es)) \<Rightarrow> 2 * size_list (size_prod (\<lambda>a. 0) size) es)") auto

text \<open>
  \<^verbatim>\<open>self._rmtree(self.name)\<close> on the file system, a map from the names of temporary
  directories to what they name. A name that is not there cannot be listed.
\<close>

definition rmtree_at ::
  "faults \<Rightarrow> string \<Rightarrow> (string \<rightharpoonup> node) \<Rightarrow> exn option \<times> (string \<rightharpoonup> node)" where
  "rmtree_at F path files =
     (case files path of
        None \<Rightarrow>
          (Some (case F Listdir of
                   Some e \<Rightarrow> e
                 | None \<Rightarrow> Exn OSError ''No such file or directory''), files)
      | Some n \<Rightarrow> (case rmtree F n of (ex, n') \<Rightarrow> (ex, files(path := n'))))"

text \<open>Nothing under the node is refused by the operating system.\<close>

fun deletable :: "node \<Rightarrow> bool"
  and deletable_all :: "(string \<times> node) list \<Rightarrow> bool"
where
  "deletable (File w) = w"
| "deletable (Symlink w t) = w"
| "deletable (Dir r w es) = (r \<and> w \<and> deletable_all es)"
| "deletable_all [] = True"
| "deletable_all ((nm, c) # es) = (deletable c \<and> deletable_all es)"

subsection \<open>The class\<close>

text \<open>\<^verbatim>\<open>"None" not in str(ex)\<close> needs the substring test of Python's \<^verbatim>\<open>in\<close>.\<close>

fun starts_with :: "string \<Rightarrow> string \<Rightarrow> bool" where
  "starts_with [] s = True"
| "starts_with (c # cs) [] = False"
| "starts_with (c # cs) (d # ds) = (c = d \<and> starts_with cs ds)"

fun str_contains :: "string \<Rightarrow> string \<Rightarrow> bool" where
  "str_contains sub [] = (sub = [])"
| "str_contains sub (c # s) = (starts_with sub (c # s) \<or> str_contains sub s)"

text \<open>
  The object: \<^verbatim>\<open>self.name\<close> (\<^verbatim>\<open>None\<close> until \<^verbatim>\<open>mkdtemp\<close> has returned) and
  \<^verbatim>\<open>self._closed\<close>. The world outside it: the file system and the warnings issued so
  far, each by the name of the directory it is about. The interpreter: the faults of
  the kept functions, and whether the name \<^verbatim>\<open>ResourceWarning\<close> is defined (it is not a
  builtin of Python 2).
\<close>

record TemporaryDirectory =
  name :: "string option"
  closed :: bool

record world =
  fs :: "string \<rightharpoonup> node"
  warnings :: "string list"

record interp =
  faults :: faults
  has_ResourceWarning :: bool

text \<open>\<^verbatim>\<open>__init__\<close>, given what \<^verbatim>\<open>mkdtemp\<close> does.\<close>

definition dunder_init :: "exn + string \<Rightarrow> exn option \<times> TemporaryDirectory" where
  "dunder_init mkdtemp =
     (case mkdtemp of
        Inl e \<Rightarrow> (Some e, \<lparr>name = None, closed = False\<rparr>)
      | Inr path \<Rightarrow> (None, \<lparr>name = Some path, closed = False\<rparr>))"

text \<open>
  \<^verbatim>\<open>self._warn("Implicitly cleaning up {!r}".format(self), ResourceWarning)\<close>: the
  arguments are evaluated first, then the call is made.
\<close>

definition warn_implicit :: "interp \<Rightarrow> string \<Rightarrow> world \<Rightarrow> exn + world" where
  "warn_implicit I path W =
     (if \<not> has_ResourceWarning I
      then Inl (Exn NameError ''global name ResourceWarning is not defined'')
      else call (faults I) Warn (Inr (W\<lparr>warnings := warnings W @ [path]\<rparr>)))"

text \<open>
  \<^verbatim>\<open>cleanup(self, _warn)\<close>: the exception that leaves the call, if any, the object
  and the world afterwards.
\<close>

definition cleanup ::
  "bool \<Rightarrow> interp \<Rightarrow> TemporaryDirectory \<Rightarrow> world \<Rightarrow> exn option \<times> TemporaryDirectory \<times> world" where
  "cleanup warn I self W =
     (case name self of
        None \<Rightarrow> (None, self, W)
      | Some path \<Rightarrow>
          if path \<noteq> [] \<and> \<not> closed self then
            (case rmtree_at (faults I) path (fs W) of
               (Some ex, files) \<Rightarrow>
                 if isinstance ex TypeError \<or> isinstance ex AttributeError then
                   (if \<not> str_contains ''None'' (str ex)
                    then (Some ex, self, W\<lparr>fs := files\<rparr>)
                    else (None, self, W\<lparr>fs := files\<rparr>))
                 else (Some ex, self, W\<lparr>fs := files\<rparr>)
             | (None, files) \<Rightarrow>
                 if warn then
                   (case warn_implicit I path (W\<lparr>fs := files\<rparr>) of
                      Inl e \<Rightarrow> (Some e, self\<lparr>closed := True\<rparr>, W\<lparr>fs := files\<rparr>)
                    | Inr W' \<Rightarrow> (None, self\<lparr>closed := True\<rparr>, W'))
                 else (None, self\<lparr>closed := True\<rparr>, W\<lparr>fs := files\<rparr>))
          else (None, self, W))"

text \<open>\<^verbatim>\<open>__exit__\<close> and \<^verbatim>\<open>__del__\<close>.\<close>

definition dunder_exit ::
  "interp \<Rightarrow> TemporaryDirectory \<Rightarrow> world \<Rightarrow> exn option \<times> TemporaryDirectory \<times> world" where
  "dunder_exit I self W = cleanup False I self W"

definition dunder_del ::
  "interp \<Rightarrow> TemporaryDirectory \<Rightarrow> world \<Rightarrow> exn option \<times> TemporaryDirectory \<times> world" where
  "dunder_del I self W = cleanup True I self W"

subsection \<open>A test's temporary directory\<close>

text \<open>
  The directory of \<^verbatim>\<open>test_anim\<close> when its \<^verbatim>\<open>with\<close> block ends, under a Python 2
  whose kept functions all work.
\<close>

definition py2 :: interp where
  "py2 = \<lparr> faults = (\<lambda>p. None), has_ResourceWarning = False \<rparr>"

definition anim_dir :: node where
  "anim_dir = Dir True True [(''anim.webp'', File True)]"

definition tmp_world :: world where
  "tmp_world = \<lparr> fs = [''/tmp/tmpq3x'' \<mapsto> anim_dir], warnings = [] \<rparr>"

definition tmp_self :: TemporaryDirectory where
  "tmp_self = snd (dunder_init (Inr ''/tmp/tmpq3x''))"

text \<open>The same interpreter at shutdown, when \<^verbatim>\<open>_listdir\<close> has become \<^verbatim>\<open>None\<close>.\<close>

definition shutdown :: interp where
  "shutdown =
     \<lparr> faults = (\<lambda>p. if p = Listdir then Some (Exn TypeError ''NoneType object is not callable'')
                      else None),
       has_ResourceWarning = False \<rparr>"

text \<open>The same directory when the operating system refuses to unlink the file in it.\<close>

definition locked_dir :: node where
  "locked_dir = Dir True True [(''anim.webp'', File False)]"

definition locked_world :: world where
  "locked_world = \<lparr> fs = [''/tmp/tmpq3x'' \<mapsto> locked_dir], warnings = [] \<rparr>"

text \<open>
  The name of the temporary directory replaced by a link to a directory elsewhere that
  holds one file.
\<close>

definition linked_world :: world where
  "linked_world = \<lparr> fs = [''/tmp/tmpq3x'' \<mapsto> Symlink True (Some anim_dir)], warnings = [] \<rparr>"

definition emptied_link_world :: world where
  "emptied_link_world =
     \<lparr> fs = [''/tmp/tmpq3x'' \<mapsto> Symlink True (Some (Dir True True []))], warnings = [] \<rparr>"

section \<open>Results for setup.py\<close>

text \<open>
  C8, as stated, fails: the claim lets the function fall back exactly when the import
  raises \<^verbatim>\<open>ImportError\<close>, and has a conversion error reach the caller. In
  \<open>lazy_env\<close> the import succeeds, the conversion raises, and the function still falls
  back and returns the raw file.
\<close>

theorem get_long_description_counterexample:
  "import_pypandoc lazy_env = Inr lazy_pypandoc
   \<and> convert lazy_pypandoc ''README.md'' ''rst'' = Inl (Exn ImportError ''No module named pandoc'')
   \<and> fell_back lazy_env
   \<and> get_long_description lazy_env =
       ([ImportPypandoc, Convert ''README.md'' ''rst'', OpenRead ''README.md''], Inr ''# webp'')"
  by (simp add: lazy_env_def lazy_pypandoc_def readme_only_def fell_back_def
      get_long_description_def try_body_def isinstance_def)

text \<open>
  C8, amended: \<^verbatim>\<open>get_long_description\<close> returns the conversion of README.md when
  \<^verbatim>\<open>pypandoc\<close> imports and converts; it falls back to the raw contents of README.md
  exactly when an \<^verbatim>\<open>ImportError\<close> is raised inside the \<^verbatim>\<open>try\<close>, by the import or by the
  conversion; every exception of the \<^verbatim>\<open>try\<close> that is not an \<^verbatim>\<open>ImportError\<close>, and every
  exception of the fallback's read, reaches the caller.
\<close>

theorem get_long_description_fallback:
  "(import_pypandoc env = Inr m \<and> convert m ''README.md'' ''rst'' = Inr d
      \<longrightarrow> get_long_description env = ([ImportPypandoc, Convert ''README.md'' ''rst''], Inr d)
          \<and> \<not> fell_back env)
   \<and> (fell_back env \<longleftrightarrow>
        (\<exists>e. isinstance e ImportError \<and>
           (import_pypandoc env = Inl e \<or>
            (\<exists>m'. import_pypandoc env = Inr m' \<and> convert m' ''README.md'' ''rst'' = Inl e))))
   \<and> (fell_back env \<longrightarrow> snd (get_long_description env) = open_read env ''README.md'')
   \<and> (\<not> isinstance e ImportError \<and>
        (import_pypandoc env = Inl e \<or>
         (\<exists>m'. import_pypandoc env = Inr m' \<and> convert m' ''README.md'' ''rst'' = Inl e))
      \<longrightarrow> snd (get_long_description env) = Inl e \<and> \<not> fell_back env)"
proof (cases "import_pypandoc env")
  case (Inl x)
  then show ?thesis
    by (auto simp: fell_back_def get_long_description_def try_body_def)
next
  case (Inr p)
  then show ?thesis
    by (cases "convert p ''README.md'' ''rst''")
       (auto simp: fell_back_def get_long_description_def try_body_def)
qed

theorem get_long_description_fallback_witness:
  "(isinstance (Exn ModuleNotFoundError ''No module named pypandoc'') ImportError
    \<and> import_pypandoc bare_env = Inl (Exn ModuleNotFoundError ''No module named pypandoc'')
    \<and> fell_back bare_env
    \<and> snd (get_long_description bare_env) = Inr ''# webp'')
   \<and> (import_pypandoc pandoc_env = Inr (Pypandoc (\<lambda>source to. Inr ''webp ====''))
    \<and> get_long_description pandoc_env =
         ([ImportPypandoc, Convert ''README.md'' ''rst''], Inr ''webp ====''))
   \<and> (\<not> isinstance (Exn OSError ''No pandoc was found'') ImportError
    \<and> snd (get_long_description no_pandoc_env) = Inl (Exn OSError ''No pandoc was found''))"
proof -
  note bare = get_long_description_fallback [where env = bare_env]
  have imp: "import_pypandoc bare_env = Inl (Exn ModuleNotFoundError ''No module named pypandoc'')"
    by (simp add: bare_env_def)
  have inst: "isinstance (Exn ModuleNotFoundError ''No module named pypandoc'') ImportError"
    by (simp add: isinstance_def)
  from bare imp inst have fb: "fell_back bare_env"
    by blast
  from bare fb have "snd (get_long_description bare_env) = open_read bare_env ''README.md''"
    by blast
  then have raw: "snd (get_long_description bare_env) = Inr ''# webp''"
    by (simp add: bare_env_def readme_only_def)
  have imp2: "import_pypandoc pandoc_env = Inr (Pypandoc (\<lambda>source to. Inr ''webp ====''))"
    by (simp add: pandoc_env_def)
  have conv2: "convert (Pypandoc (\<lambda>source to. Inr ''webp ===='')) ''README.md'' ''rst''
      = Inr ''webp ====''"
    by simp
  from get_long_description_fallback [where env = pandoc_env] imp2 conv2
  have rst: "get_long_description pandoc_env =
      ([ImportPypandoc, Convert ''README.md'' ''rst''], Inr ''webp ===='')"
    by blast
  have imp3: "import_pypandoc no_pandoc_env =
      Inr (Pypandoc (\<lambda>source to. Inl (Exn OSError ''No pandoc was found'')))"
    by (simp add: no_pandoc_env_def)
  have conv3: "convert (Pypandoc (\<lambda>source to. Inl (Exn OSError ''No pandoc was found'')))
      ''README.md'' ''rst'' = Inl (Exn OSError ''No pandoc was found'')"
    by simp
  have inst3: "\<not> isinstance (Exn OSError ''No pandoc was found'') ImportError"
    by (simp add: isinstance_def)
  from get_long_description_fallback
    [where env = no_pandoc_env and e = "Exn OSError ''No pandoc was found''"] imp3 conv3 inst3
  have err: "snd (get_long_description no_pandoc_env) = Inl (Exn OSError ''No pandoc was found'')"
    by blast
  from inst imp fb raw imp2 rst inst3 err show ?thesis
    by blast
qed


section \<open>Results for TemporaryDirectory\<close>

subsection \<open>What \<^verbatim>\<open>_rmtree\<close> removes\<close>

text \<open>The loop is reached only through a path that leads to a directory.\<close>

lemma rmtree_for_returns_dir:
  "fst (rmtree_for F n) = None \<Longrightarrow> isdir n"
proof (induction n)
  case (File w)
  then show ?case by (simp add: call_def split: option.splits)
next
  case (Symlink w t)
  then show ?case
    by (cases t) (auto simp: call_def split: option.splits prod.splits)
next
  case (Dir r w es)
  then show ?case by simp
qed

text \<open>A link is never removed by \<^verbatim>\<open>_rmtree\<close>: \<^verbatim>\<open>_rmdir\<close> refuses it.\<close>

lemma rmtree_for_link:
  "islink (snd (rmtree_for F (Symlink w t)))"
  by (cases t) (auto simp: call_def split: prod.splits sum.splits option.splits)

lemma rmtree_keeps_link:
  "snd (rmtree F (Symlink w t)) \<noteq> None"
proof -
  obtain ex n' where r: "rmtree_for F (Symlink w t) = (ex, n')"
    by (cases "rmtree_for F (Symlink w t)")
  with rmtree_for_link [of F w t] have "islink n'"
    by simp
  then obtain w' t' where "n' = Symlink w' t'"
    by (cases n') simp_all
  with r show ?thesis
    by (cases ex; cases "F Rmdir") (simp_all add: call_def)
qed

text \<open>
  When no kept function is at fault and the operating system refuses nothing, a real
  directory goes with everything in it. The three functions are treated together,
  along their own recursion.
\<close>

lemma rmtree_deletable:
  "F = (\<lambda>p. None) \<Longrightarrow> deletable n \<Longrightarrow> isdir n \<Longrightarrow> \<not> islink n \<Longrightarrow> rmtree F n = (None, None)"
  "F = (\<lambda>p. None) \<Longrightarrow> deletable n \<Longrightarrow> isdir n \<Longrightarrow> \<not> islink n \<Longrightarrow>
     rmtree_for F n = (None, Dir True True [])"
  "F = (\<lambda>p. None) \<Longrightarrow> deletable_all es \<Longrightarrow> rmtree_loop F es = (None, [])"
proof (induction F n and F n and F es rule: rmtree_rmtree_for_rmtree_loop.induct)
  case (1 F n)
  then have "rmtree_for F n = (None, Dir True True [])"
    by simp
  with "1.prems"(1) show ?case
    by (simp add: call_def)
next
  case (2 F r w es)
  then show ?case by (simp add: call_def)
next
  case (3 F w t)
  then show ?case by simp
next
  case (4 F w)
  then show ?case by simp
next
  case (5 F w)
  then show ?case by simp
next
  case (6 F)
  then show ?case by simp
next
  case (7 F nm c es)
  from "7.prems" have F: "F = (\<lambda>p. None)" and dc: "deletable c" and des: "deletable_all es"
    by simp_all
  have pj: "call F PathJoin (Inr nm) = Inr nm"
    using F by (simp add: call_def)
  show ?case
  proof (cases "isdir c \<and> \<not> islink c")
    case True
    then have rd: "is_real_dir F c = Inr True"
      using F by (simp add: is_real_dir_def call_def)
    have sub: "rmtree F c = (None, None)"
      using "7.IH"(1) [OF pj rd] F dc True by simp
    have "rmtree_loop F es = (None, [])"
      using "7.IH"(2) [OF pj rd, of None None] sub F des by simp
    with pj rd sub show ?thesis
      by (simp del: rmtree.simps)
  next
    case False
    then have rd: "is_real_dir F c = Inr False"
      using F by (auto simp: is_real_dir_def call_def)
    from False dc have "remove c = Inr ()"
      by (cases c) simp_all
    then have tr: "try_remove F c = Inr None"
      using F by (simp add: try_remove_def call_def)
    have "rmtree_loop F es = (None, [])"
      using "7.IH"(3) [OF pj rd _ tr] F des by simp
    with pj rd tr show ?thesis by simp
  qed
qed

lemma rmtree_at_deletable:
  assumes "rmtree_at F path files = (None, files')"
      and "F = (\<lambda>p. None)" and "files path = Some n" and "deletable n" and "\<not> islink n"
  shows "files' path = None"
proof -
  from assms(1,3) obtain n' where n': "rmtree F n = (None, n')"
      and f': "files' = files(path := n')"
    by (auto simp: rmtree_at_def split: prod.splits)
  from n' have "fst (rmtree_for F n) = None"
    by (auto split: prod.splits option.splits sum.splits if_splits)
  then have d: "isdir n"
    by (rule rmtree_for_returns_dir)
  from assms(2) assms(4) d assms(5) have "rmtree F n = (None, None)"
    by (rule rmtree_deletable(1))
  with n' f' show ?thesis by simp
qed

subsection \<open>What \<^verbatim>\<open>cleanup\<close> does\<close>

lemma cleanup_closed_noop:
  "closed self \<Longrightarrow> cleanup warn I self W = (None, self, W)"
  by (simp add: cleanup_def split: option.split)

text \<open>
  A call on an object that is not closed closes it exactly when it reaches
  \<^verbatim>\<open>_rmtree\<close> and \<^verbatim>\<open>_rmtree\<close> returns; the file system is then the one \<^verbatim>\<open>_rmtree\<close>
  left, and nothing of the object but \<^verbatim>\<open>_closed\<close> has changed.
\<close>

lemma cleanup_closes_iff:
  assumes "cleanup warn I self W = (r, self', W')" and "\<not> closed self"
  shows "closed self' \<longleftrightarrow>
           (\<exists>path. name self = Some path \<and> path \<noteq> []
              \<and> fst (rmtree_at (faults I) path (fs W)) = None)"
    and "closed self' \<Longrightarrow> self' = self\<lparr>closed := True\<rparr>"
    and "closed self' \<Longrightarrow> name self = Some path \<Longrightarrow>
           rmtree_at (faults I) path (fs W) = (None, fs W')"
  using assms
  by (auto simp: cleanup_def warn_implicit_def call_def
      split: option.splits if_splits prod.splits sum.splits)

text \<open>
  Idempotence. The call that closes the object is the one whose \<^verbatim>\<open>_rmtree\<close> returns;
  it leaves the file system as \<^verbatim>\<open>_rmtree\<close> left it, with the directory gone when it is
  a real directory, no kept function is at fault and nothing under it is refused. Every
  later call, with or without \<open>_warn\<close>, through \<^verbatim>\<open>cleanup\<close>, \<^verbatim>\<open>__exit__\<close> or
  \<^verbatim>\<open>__del__\<close>, under any state of the interpreter, raises nothing and changes neither
  the object nor the file system nor the warnings.
\<close>

lemma cleanup_twice:
  assumes first: "cleanup warn I self W = (r, self', W')"
      and fresh: "\<not> closed self"
  shows "(closed self' \<longleftrightarrow>
            (\<exists>path. name self = Some path \<and> path \<noteq> []
               \<and> fst (rmtree_at (faults I) path (fs W)) = None))
       \<and> (closed self' \<longrightarrow>
            self' = self\<lparr>closed := True\<rparr>
          \<and> (\<exists>path. name self = Some path
                \<and> rmtree_at (faults I) path (fs W) = (None, fs W')
                \<and> (faults I = (\<lambda>p. None)
                     \<and> (\<exists>n. fs W path = Some n \<and> deletable n \<and> \<not> islink n)
                     \<longrightarrow> fs W' path = None))
          \<and> cleanup warn2 I2 self' W' = (None, self', W')
          \<and> dunder_exit I2 self' W' = (None, self', W')
          \<and> dunder_del I2 self' W' = (None, self', W'))"
proof (intro conjI impI)
  show "closed self' \<longleftrightarrow>
      (\<exists>path. name self = Some path \<and> path \<noteq> []
         \<and> fst (rmtree_at (faults I) path (fs W)) = None)"
    using first fresh by (rule cleanup_closes_iff(1))
next
  assume shut: "closed self'"
  show "self' = self\<lparr>closed := True\<rparr>"
    using first fresh shut by (rule cleanup_closes_iff(2))
  from shut cleanup_closes_iff(1) [OF first fresh]
  obtain path where p: "name self = Some path"
    by blast
  have rm: "rmtree_at (faults I) path (fs W) = (None, fs W')"
    using first fresh shut p by (rule cleanup_closes_iff(3))
  have gone: "fs W' path = None"
    if "faults I = (\<lambda>p. None) \<and> (\<exists>n. fs W path = Some n \<and> deletable n \<and> \<not> islink n)"
    using that rm rmtree_at_deletable by blast
  from p rm gone
  show "\<exists>path. name self = Some path
      \<and> rmtree_at (faults I) path (fs W) = (None, fs W')
      \<and> (faults I = (\<lambda>p. None) \<and> (\<exists>n. fs W path = Some n \<and> deletable n \<and> \<not> islink n)
           \<longrightarrow> fs W' path = None)"
    by blast
  show "cleanup warn2 I2 self' W' = (None, self', W')"
    using shut by (rule cleanup_closed_noop)
  show "dunder_exit I2 self' W' = (None, self', W')"
    unfolding dunder_exit_def using shut by (rule cleanup_closed_noop)
  show "dunder_del I2 self' W' = (None, self', W')"
    unfolding dunder_del_def using shut by (rule cleanup_closed_noop)
qed

subsection \<open>Runs\<close>

text \<open>The end of the \<^verbatim>\<open>with\<close> block of \<^verbatim>\<open>test_anim\<close>: the directory goes.\<close>

lemma dunder_exit_removes:
  "dunder_exit py2 tmp_self tmp_world =
     (None, tmp_self\<lparr>closed := True\<rparr>, tmp_world\<lparr>fs := Map.empty\<rparr>)"
  by (simp add: dunder_exit_def cleanup_def py2_def tmp_self_def tmp_world_def anim_dir_def
      dunder_init_def rmtree_at_def call_def is_real_dir_def try_remove_def)

text \<open>
  \<^verbatim>\<open>__del__\<close> on the same object, had \<^verbatim>\<open>__exit__\<close> not run: the directory goes, the
  object is closed, and the warning is not issued, because the name
  \<^verbatim>\<open>ResourceWarning\<close> is not defined.
\<close>

lemma dunder_del_raises:
  "dunder_del py2 tmp_self tmp_world =
     (Some (Exn NameError ''global name ResourceWarning is not defined''),
      tmp_self\<lparr>closed := True\<rparr>, tmp_world\<lparr>fs := Map.empty\<rparr>)"
  by (simp add: dunder_del_def cleanup_def warn_implicit_def py2_def tmp_self_def tmp_world_def
      anim_dir_def dunder_init_def rmtree_at_def call_def is_real_dir_def try_remove_def)

text \<open>
  At shutdown the \<^verbatim>\<open>TypeError\<close> of the missing \<^verbatim>\<open>_listdir\<close> is passed over: nothing is
  removed, nothing is reported, and the object stays open.
\<close>

lemma cleanup_at_shutdown:
  "cleanup False shutdown tmp_self tmp_world = (None, tmp_self, tmp_world)"
  by (simp add: cleanup_def shutdown_def tmp_self_def tmp_world_def anim_dir_def
      dunder_init_def rmtree_at_def call_def isinstance_def)

text \<open>
  Where the name has become a link to a directory, the directory behind the link is
  emptied, \<^verbatim>\<open>_rmdir\<close> refuses the link, and the object is closed with the link left.
\<close>

lemma cleanup_leaves_link:
  "cleanup False py2 tmp_self linked_world =
     (None, tmp_self\<lparr>closed := True\<rparr>, emptied_link_world)"
  by (simp add: cleanup_def py2_def tmp_self_def linked_world_def emptied_link_world_def
      anim_dir_def dunder_init_def rmtree_at_def call_def is_real_dir_def try_remove_def
      isinstance_def)

text \<open>
  C10 says that the first successful cleanup removes the directory tree, and the
  docstring of the class that upon exiting the context the directory and everything
  contained in it are removed. Where the operating system refuses to unlink the file
  in the directory, \<^verbatim>\<open>_rmtree\<close> passes over the \<^verbatim>\<open>OSError\<close> of \<^verbatim>\<open>_remove\<close> and then
  that of \<^verbatim>\<open>_rmdir\<close>: \<^verbatim>\<open>__exit__\<close> raises nothing and closes the object, the file and
  the directory are still there, and no later \<^verbatim>\<open>cleanup\<close>, \<^verbatim>\<open>__exit__\<close> or
  \<^verbatim>\<open>__del__\<close> tries again.
\<close>

theorem dunder_exit_leaves_refused_tree:
  "dunder_exit py2 tmp_self locked_world = (None, tmp_self\<lparr>closed := True\<rparr>, locked_world)
   \<and> closed (tmp_self\<lparr>closed := True\<rparr>)
   \<and> fs locked_world ''/tmp/tmpq3x'' = Some (Dir True True [(''anim.webp'', File False)])
   \<and> cleanup False py2 (tmp_self\<lparr>closed := True\<rparr>) locked_world =
        (None, tmp_self\<lparr>closed := True\<rparr>, locked_world)
   \<and> dunder_exit py2 (tmp_self\<lparr>closed := True\<rparr>) locked_world =
        (None, tmp_self\<lparr>closed := True\<rparr>, locked_world)
   \<and> dunder_del py2 (tmp_self\<lparr>closed := True\<rparr>) locked_world =
        (None, tmp_self\<lparr>closed := True\<rparr>, locked_world)"
  by (simp add: dunder_exit_def dunder_del_def cleanup_def py2_def tmp_self_def
      locked_world_def locked_dir_def dunder_init_def rmtree_at_def call_def is_real_dir_def
      try_remove_def isinstance_def)

end
